theory Spec2Isabelle
  imports Complex_Main
begin

section \<open>The SLO evaluation engine\<close>

text \<open>
  The embedding follows \<^verbatim>\<open>packages/api/src/controllers/sloStatus.ts\<close> and
  \<^verbatim>\<open>packages/api/src/controllers/sloAlerts.ts\<close>.

  A JavaScript \<^verbatim>\<open>number\<close> is an IEEE 754 binary64 value. A finite one is the
  \<^typ>\<open>real\<close> it denotes, and every arithmetic operation rounds its exact result to the
  nearest double, ties to even (\<open>fl\<close> below). A \<^verbatim>\<open>Date\<close> is its count of
  milliseconds since the epoch, an \<^typ>\<open>int\<close>. Counts summed by ClickHouse are
  \<^typ>\<open>nat\<close>; they stay below \<open>2 ^ 53\<close>, where the conversion to a double is exact.
\<close>

section \<open>Binary64 arithmetic\<close>

text \<open>
  \<open>expo x\<close> is the binary exponent of a positive \<open>x\<close>: the \<open>e\<close> with
  \<open>2 ^ e \<le> x < 2 ^ (e + 1)\<close>, found by halving and doubling.
\<close>

function expo :: "real \<Rightarrow> int" where
  "expo x = (if 2 \<le> x then expo (x / 2) + 1
             else if 0 < x \<and> x < 1 then expo (2 * x) - 1
             else 0)"
  by pat_completeness auto
termination
proof (relation "measure (\<lambda>x. 2 * nat \<lceil>1 / x\<rceil> + nat \<lfloor>x\<rfloor>)")
  show "wf (measure (\<lambda>x::real. 2 * nat \<lceil>1 / x\<rceil> + nat \<lfloor>x\<rfloor>))" by simp
next
  fix x :: real
  assume x: "2 \<le> x"
  have c1: "\<lceil>1 / (x / 2)\<rceil> = 1"
    using x by (intro ceiling_unique) (simp_all add: field_simps)
  have c2: "\<lceil>1 / x\<rceil> = 1"
    using x by (intro ceiling_unique) (simp_all add: field_simps)
  have "\<lfloor>x / 2\<rfloor> < \<lfloor>x\<rfloor>"
  proof -
    have "x / 2 < of_int \<lfloor>x\<rfloor>"
    proof -
      have "x < of_int \<lfloor>x\<rfloor> + 1" by linarith
      moreover have "2 \<le> (of_int \<lfloor>x\<rfloor> :: real)" using x by (simp add: le_floor_iff)
      ultimately show ?thesis by linarith
    qed
    then show ?thesis by (simp add: floor_less_iff)
  qed
  moreover have "0 \<le> \<lfloor>x / 2\<rfloor>" using x by simp
  ultimately have "nat \<lfloor>x / 2\<rfloor> < nat \<lfloor>x\<rfloor>" by linarith
  then have "2 * nat \<lceil>1 / (x / 2)\<rceil> + nat \<lfloor>x / 2\<rfloor> < 2 * nat \<lceil>1 / x\<rceil> + nat \<lfloor>x\<rfloor>"
    by (simp only: c1 c2)
  then show "(x / 2, x) \<in> measure (\<lambda>x. 2 * nat \<lceil>1 / x\<rceil> + nat \<lfloor>x\<rfloor>)"
    by (simp only: in_measure)
next
  fix x :: real
  assume "\<not> 2 \<le> x" and x: "0 < x \<and> x < 1"
  define y where "y = 1 / x"
  have y: "1 < y" using x by (simp add: y_def)
  have fx: "\<lfloor>x\<rfloor> = 0" using x by (intro floor_unique) simp_all
  have f2: "\<lfloor>2 * x\<rfloor> \<le> 1" using x by (simp add: floor_le_iff)
  have f2': "0 \<le> \<lfloor>2 * x\<rfloor>" using x by simp
  have h: "1 / (2 * x) = y / 2" by (simp add: y_def)
  have "\<lceil>y / 2\<rceil> < \<lceil>y\<rceil>"
  proof -
    have "2 \<le> \<lceil>y\<rceil>" using y by (simp add: le_ceiling_iff)
    then have "(of_int 2 :: real) \<le> of_int \<lceil>y\<rceil>" by (simp only: of_int_le_iff)
    then have "(2 :: real) \<le> of_int \<lceil>y\<rceil>" by simp
    moreover have "y \<le> of_int \<lceil>y\<rceil>" by simp
    ultimately have "y / 2 \<le> of_int \<lceil>y\<rceil> - 1" by linarith
    then have "y / 2 \<le> of_int (\<lceil>y\<rceil> - 1)" by simp
    then have "\<lceil>y / 2\<rceil> \<le> \<lceil>y\<rceil> - 1" by (simp only: ceiling_le_iff)
    then show ?thesis by simp
  qed
  moreover have "0 < \<lceil>y / 2\<rceil>" using y by simp
  ultimately have "nat \<lceil>y / 2\<rceil> + 1 \<le> nat \<lceil>y\<rceil>" by linarith
  moreover have "nat \<lfloor>2 * x\<rfloor> \<le> 1" using f2 f2' by linarith
  ultimately have "2 * nat \<lceil>y / 2\<rceil> + nat \<lfloor>2 * x\<rfloor> < 2 * nat \<lceil>y\<rceil> + nat (0::int)"
    by simp
  then have "2 * nat \<lceil>1 / (2 * x)\<rceil> + nat \<lfloor>2 * x\<rfloor> < 2 * nat \<lceil>1 / x\<rceil> + nat \<lfloor>x\<rfloor>"
    by (simp only: h fx y_def)
  then show "(2 * x, x) \<in> measure (\<lambda>x. 2 * nat \<lceil>1 / x\<rceil> + nat \<lfloor>x\<rfloor>)"
    by (simp only: in_measure)
qed

declare expo.simps [simp del]

text \<open>The integer nearest to \<open>r\<close>; of two equally near, the even one.\<close>

definition round_even :: "real \<Rightarrow> int" where
  "round_even r =
     (let f = \<lfloor>r\<rfloor>; d = r - of_int f
      in if d < 1 / 2 then f
         else if 1 / 2 < d then f + 1
         else if even f then f else f + 1)"

text \<open>
  \<open>fl x\<close> is the double nearest to \<open>x\<close>: a multiple of \<open>2 ^ (e - 52)\<close>, where \<open>e\<close> is
  the exponent of \<open>x\<close> and at least \<open>- 1022\<close> (below that the doubles are subnormal:
  equally spaced). There is no overflow here: a result of magnitude \<open>2 ^ 1024\<close> or more,
  which JavaScript makes an infinity, stays finite. In \<^verbatim>\<open>getSLOStatus\<close> only the two
  error budgets, products with the window, can grow that large, and only for a target or
  a window beyond \<open>10 ^ 150\<close>.
\<close>

definition fl :: "real \<Rightarrow> real" where
  "fl x =
     (if x = 0 then 0
      else let e = max (expo \<bar>x\<bar>) (- 1022);
               q = 2 powi (e - 52)
           in sgn x * (of_int (round_even (\<bar>x\<bar> / q)) * q))"

text \<open>The operators \<^verbatim>\<open>/\<close>, \<^verbatim>\<open>*\<close> and \<^verbatim>\<open>-\<close> on finite doubles.\<close>

definition fdiv :: "real \<Rightarrow> real \<Rightarrow> real" where
  "fdiv a b = fl (a / b)"

definition fmul :: "real \<Rightarrow> real \<Rightarrow> real" where
  "fmul a b = fl (a * b)"

definition fsub :: "real \<Rightarrow> real \<Rightarrow> real" where
  "fsub a b = fl (a - b)"

section \<open>Data model\<close>

text \<open>
  The only value that is not finite and that the code produces itself is the literal
  \<^verbatim>\<open>Infinity\<close> of the burn rate, so a burn rate is a \<open>number\<close>: a finite double or
  \<open>Infinity\<close>.
\<close>

datatype number = Fin real | Infinity

text \<open>\<^verbatim>\<open>a >= b\<close> for a burn rate \<open>a\<close> and a finite \<open>b\<close>.\<close>

fun number_ge :: "number \<Rightarrow> real \<Rightarrow> bool" where
  "number_ge (Fin a) b = (b \<le> a)"
| "number_ge Infinity b = True"

text \<open>
  Modelled from the spec: the declarations of \<^verbatim>\<open>models/slo\<close> (\<^verbatim>\<open>ISLO\<close>,
  \<^verbatim>\<open>SLOStatus\<close>) and \<^verbatim>\<open>models/webhook\<close> (\<^verbatim>\<open>IWebhook\<close>), which the two
  controllers import and which are missing. The records have the fields of the spec's
  data model that the controllers read; an optional field is an \<open>option\<close>. The name
  \<^verbatim>\<open>id\<close> is \<open>slo_id\<close> and \<^verbatim>\<open>filter\<close> is \<open>slo_filter\<close> here.
\<close>

datatype SLOStatus = HEALTHY | AT_RISK | BREACHED

datatype severity = warning | critical

record BurnThreshold =
  threshold_burnRate :: real
  threshold_severity :: severity

record BurnAlerts =
  enabled :: bool
  thresholds :: "BurnThreshold list"

record BurnAlertState =
  alert_severity :: severity
  alert_timestamp :: int

record IWebhook =
  webhook_id :: string
  webhook_url :: string

record ISLO =
  slo_id :: string
  team :: string
  serviceName :: string
  sloName :: string
  targetValue :: real
  timeWindow :: string
  sourceTable :: string
  slo_filter :: "string option"
  goodCondition :: "string option"
  burnAlerts :: "BurnAlerts option"
  lastBurnAlertState :: "BurnAlertState option"

record SLOStatusResult =
  slo :: ISLO
  achieved :: real
  target :: real
  errorBudgetRemaining :: real
  status :: SLOStatus
  numerator :: nat
  denominator :: nat
  windowStart :: int
  windowEnd :: int
  timestamp :: int
  burnRate :: "number option"

section \<open>The stores\<close>

text \<open>
  One row of \<^verbatim>\<open>default.slo_aggregates\<close>. The column \<^verbatim>\<open>timestamp\<close> is a ClickHouse
  \<^verbatim>\<open>DateTime\<close>: whole seconds.
\<close>

record agg_row =
  row_slo_id :: string
  row_timestamp :: int
  numerator_count :: nat
  denominator_count :: nat

text \<open>
  The ClickHouse server: whether a query reaches it (a query that does not throws), the
  aggregate table, and the answer of the real-time query, whose predicates are SQL text of
  the SLO: \<open>rawCounts goodCondition sourceTable filter start end\<close> is
  \<^verbatim>\<open>(countIf(goodCondition), count())\<close> over the rows of the table that satisfy the
  filter between the two instants.
\<close>

record ClickHouse =
  available :: bool
  slo_aggregates :: "agg_row list"
  rawCounts :: "string \<Rightarrow> string \<Rightarrow> string \<Rightarrow> int \<Rightarrow> int \<Rightarrow> nat \<times> nat"

datatype query =
    RealtimeQuery string string string int int
  | StatusQuery string int
  | BurnRateQuery string int int

datatype log_level = LogInfo | LogWarn | LogError


text \<open>
  The argument of \<^verbatim>\<open>handleSendGenericWebhook\<close>. Title and body are template strings
  over the values below (numbers through \<^verbatim>\<open>toFixed(2)\<close>); the message keeps the values.
  \<^verbatim>\<open>eventId\<close> is \<^verbatim>\<open>slo-burn-<id>-<severity>-<now>\<close>.
\<close>

record BurnAlertMessage =
  msg_hdxLink :: string
  msg_serviceName :: string
  msg_sloName :: string
  msg_severity :: severity
  msg_burnRate :: number
  msg_target :: real
  msg_achieved :: real
  msg_errorBudgetRemaining :: real
  msg_startTime :: int
  msg_endTime :: int
  msg_eventId :: "string \<times> severity \<times> int"

text \<open>What a call does besides returning: in the order it happens.\<close>

datatype effect =
    MongoFindOne string string
  | ClickHouseQuery query
  | SendWebhook IWebhook BurnAlertMessage
  | Log log_level string

datatype error = SLONotFound | ClickHouseError | WebhookError

text \<open>\<^verbatim>\<open>SLO.findOne({ _id: sloId, team: teamId })\<close> over the collection.\<close>

definition findOne :: "ISLO list \<Rightarrow> string \<Rightarrow> string \<Rightarrow> ISLO option" where
  "findOne slos sloId teamId = find (\<lambda>s. slo_id s = sloId \<and> team s = teamId) slos"

text \<open>
  \<^verbatim>\<open>d.toISOString().slice(0, 19).replace('T', ' ')\<close> read as a \<^verbatim>\<open>DateTime\<close>: the
  second the instant lies in.
\<close>

definition toDateTime :: "int \<Rightarrow> int" where
  "toDateTime t = t div 1000"

text \<open>\<^verbatim>\<open>new Date(x)\<close> for a finite \<open>x\<close>: the fraction is dropped (towards zero).\<close>

definition newDate :: "real \<Rightarrow> int" where
  "newDate x = (if 0 \<le> x then \<lfloor>x\<rfloor> else \<lceil>x\<rceil>)"

text \<open>A string in a condition: \<^verbatim>\<open>undefined\<close> and the empty string are falsy.\<close>

fun truthy :: "string option \<Rightarrow> bool" where
  "truthy None = False"
| "truthy (Some s) = (s \<noteq> [])"

text \<open>
  The status query: \<^verbatim>\<open>sum(numerator_count), sum(denominator_count)\<close> over the rows of
  the SLO with \<^verbatim>\<open>timestamp >= windowStart\<close>. There is no upper bound.
\<close>

definition statusQuery :: "agg_row list \<Rightarrow> string \<Rightarrow> int \<Rightarrow> nat \<times> nat" where
  "statusQuery rows sloId windowStart' =
     (let sel = filter (\<lambda>r. row_slo_id r = sloId \<and> windowStart' \<le> row_timestamp r) rows
      in (sum_list (map numerator_count sel), sum_list (map denominator_count sel)))"

text \<open>
  The series query: the same sums over the rows with
  \<^verbatim>\<open>timestamp >= timeStart AND timestamp <= timeEnd\<close>,
  \<^verbatim>\<open>GROUP BY timestamp ORDER BY timestamp ASC\<close>.
\<close>

definition burnRateQuery :: "agg_row list \<Rightarrow> string \<Rightarrow> int \<Rightarrow> int \<Rightarrow> (int \<times> nat \<times> nat) list" where
  "burnRateQuery rows sloId timeStart timeEnd =
     (let sel = filter (\<lambda>r. row_slo_id r = sloId \<and> timeStart \<le> row_timestamp r
                            \<and> row_timestamp r \<le> timeEnd) rows
      in map (\<lambda>t. (t,
                sum_list (map numerator_count (filter (\<lambda>r. row_timestamp r = t) sel)),
                sum_list (map denominator_count (filter (\<lambda>r. row_timestamp r = t) sel))))
           (sort (remdups (map row_timestamp sel))))"

text \<open>An optional string inside a template string: \<^verbatim>\<open>${undefined}\<close> is the text "undefined".\<close>

fun interpolate :: "string option \<Rightarrow> string" where
  "interpolate None = ''undefined''"
| "interpolate (Some s) = s"

section \<open>The status evaluator\<close>

text \<open>
  Lines 104 to 164 of \<^verbatim>\<open>getSLOStatus\<close>: from the two counts to the result.
  \<open>windowEnd\<close> and \<open>timestamp\<close> are the two \<^verbatim>\<open>new Date()\<close> of the returned object.
\<close>

definition statusFromCounts ::
  "ISLO \<Rightarrow> real \<Rightarrow> nat \<Rightarrow> nat \<Rightarrow> int \<Rightarrow> int \<Rightarrow> int \<Rightarrow> SLOStatusResult" where
  "statusFromCounts s timeWindowMs num den wStart wEnd now =
    (if den = 0 \<and> num = 0 then
       \<lparr> slo = s, achieved = 100, target = targetValue s, errorBudgetRemaining = 100,
         status = HEALTHY, numerator = 0, denominator = 0,
         windowStart = wStart, windowEnd = wEnd, timestamp = now, burnRate = None \<rparr>
     else
       let achieved' = (if den > 0 then fmul (fdiv (real num) (real den)) 100 else 100);
           errorBudgetTotal = fmul (fsub 1 (fdiv (targetValue s) 100)) timeWindowMs;
           errorBudgetUsed = fmul (fsub 1 (fdiv achieved' 100)) timeWindowMs;
           errorBudgetRemaining' = max 0 (fsub errorBudgetTotal errorBudgetUsed);
           errorBudgetRemainingPercent =
             (if errorBudgetTotal > 0
                then fmul (fdiv errorBudgetRemaining' errorBudgetTotal) 100
              else 0);
           expectedErrorRate = fsub 1 (fdiv (targetValue s) 100);
           actualErrorRate = (if den > 0 then fsub 1 (fdiv (real num) (real den)) else 0);
           burnRate' =
             (if expectedErrorRate > 0 then Fin (fdiv actualErrorRate expectedErrorRate)
              else if actualErrorRate > 0 then Infinity else Fin 0);
           status' =
             (if achieved' \<ge> targetValue s then HEALTHY
              else if errorBudgetRemainingPercent > 0 \<and> errorBudgetRemainingPercent \<le> 10
                then AT_RISK
              else BREACHED)
       in \<lparr> slo = s, achieved = achieved', target = targetValue s,
            errorBudgetRemaining = errorBudgetRemainingPercent,
            status = status', numerator = num, denominator = den,
            windowStart = wStart, windowEnd = wEnd, timestamp = now,
            burnRate = Some burnRate' \<rparr>)"

text \<open>
  \<^verbatim>\<open>getSLOStatus(sloId, teamId, realtime)\<close>. \<open>slos\<close> is the SLO collection, \<open>ch\<close> the
  ClickHouse server, \<open>ms\<close> the duration parser of the \<^verbatim>\<open>ms\<close> package (\<open>None\<close> where
  it throws or returns \<^verbatim>\<open>undefined\<close>: the date built from it is then invalid and
  \<^verbatim>\<open>toISOString\<close> throws inside the \<^verbatim>\<open>try\<close>), \<open>clock k\<close> the \<open>k\<close>-th reading of
  the clock during the call. The result is \<open>None\<close> for \<^verbatim>\<open>null\<close>. The collection
  is a list in memory: \<^verbatim>\<open>findOne\<close> always answers.
\<close>

definition getSLOStatus ::
  "ISLO list \<Rightarrow> ClickHouse \<Rightarrow> (string \<Rightarrow> real option) \<Rightarrow> (nat \<Rightarrow> int)
     \<Rightarrow> string \<Rightarrow> string \<Rightarrow> bool \<Rightarrow> SLOStatusResult option \<times> effect list" where
  "getSLOStatus slos ch ms clock sloId teamId realtime =
    (case findOne slos sloId teamId of
       None \<Rightarrow> (None, [MongoFindOne sloId teamId])
     | Some s \<Rightarrow>
        (case ms (timeWindow s) of
           None \<Rightarrow>
             (None, [MongoFindOne sloId teamId,
                     Log LogWarn ''Failed to get SLO status from ClickHouse aggregates''])
         | Some timeWindowMs \<Rightarrow>
            (let wStart = newDate (fsub (real_of_int (clock 0)) timeWindowMs) in
             if realtime \<and> truthy (slo_filter s) \<and> truthy (goodCondition s) then
               (let startTime = toDateTime wStart;
                    endTime = toDateTime (clock 1);
                    q = RealtimeQuery (interpolate (goodCondition s)) (sourceTable s)
                          (interpolate (slo_filter s)) startTime endTime
                in if available ch then
                     (let (num, den) = rawCounts ch (interpolate (goodCondition s))
                                         (sourceTable s) (interpolate (slo_filter s))
                                         startTime endTime
                      in (Some (statusFromCounts s timeWindowMs num den wStart
                                  (clock 2) (clock 3)),
                          [MongoFindOne sloId teamId, ClickHouseQuery q]))
                   else
                     (None, [MongoFindOne sloId teamId, ClickHouseQuery q,
                        Log LogWarn ''Failed to get SLO status from ClickHouse aggregates'']))
             else
               (let q = StatusQuery (slo_id s) (toDateTime wStart)
                in if available ch then
                     (let (num, den) = statusQuery (slo_aggregates ch) (slo_id s)
                                         (toDateTime wStart)
                      in (Some (statusFromCounts s timeWindowMs num den wStart
                                  (clock 1) (clock 2)),
                          [MongoFindOne sloId teamId, ClickHouseQuery q]))
                   else
                     (None, [MongoFindOne sloId teamId, ClickHouseQuery q,
                        Log LogWarn ''Failed to get SLO status from ClickHouse aggregates''])))))"


section \<open>The burn-rate series builder\<close>

record BurnRatePoint =
  point_timestamp :: int
  point_achieved :: real
  point_burnRate :: number
  point_errorBudgetRemaining :: real

text \<open>
  \<^verbatim>\<open>getSLOBurnRate(sloId, teamId, timeStart, timeEnd)\<close>. It throws when the SLO is not
  found, and nothing catches a failing query. ClickHouse prints the bucket's second as a
  text without a zone, and \<^verbatim>\<open>new Date(d.timestamp)\<close> reads that text in the zone of
  the process: \<open>localTime t\<close> is the instant, in milliseconds, read from the text of
  second \<open>t\<close> (\<open>t * 1000\<close> for a process in UTC).
\<close>

definition getSLOBurnRate ::
  "ISLO list \<Rightarrow> ClickHouse \<Rightarrow> (int \<Rightarrow> int) \<Rightarrow> string \<Rightarrow> string \<Rightarrow> int \<Rightarrow> int
     \<Rightarrow> (error + BurnRatePoint list) \<times> effect list" where
  "getSLOBurnRate slos ch localTime sloId teamId timeStart timeEnd =
    (case findOne slos sloId teamId of
       None \<Rightarrow> (Inl SLONotFound, [MongoFindOne sloId teamId])
     | Some s \<Rightarrow>
        (let q = BurnRateQuery (slo_id s) (toDateTime timeStart) (toDateTime timeEnd)
         in if available ch then
              (let data = burnRateQuery (slo_aggregates ch) (slo_id s)
                            (toDateTime timeStart) (toDateTime timeEnd);
                   expectedErrorRate = fsub 1 (fdiv (targetValue s) 100)
               in (Inr (map (\<lambda>(t, num, den).
                          let achieved' =
                                (if den > 0 then fmul (fdiv (real num) (real den)) 100
                                 else 100);
                              actualErrorRate =
                                (if den > 0 then fsub 1 (fdiv (real num) (real den)) else 0);
                              burnRate' =
                                (if expectedErrorRate > 0
                                   then Fin (fdiv actualErrorRate expectedErrorRate)
                                 else if actualErrorRate > 0 then Infinity else Fin 0)
                          in \<lparr> point_timestamp = localTime t, point_achieved = achieved',
                               point_burnRate = burnRate',
                               point_errorBudgetRemaining = 0 \<rparr>) data),
                   [MongoFindOne sloId teamId, ClickHouseQuery q]))
            else (Inl ClickHouseError, [MongoFindOne sloId teamId, ClickHouseQuery q])))"

section \<open>The alert evaluator\<close>

record AlertDecision =
  shouldAlert :: bool
  severity :: "severity option"

text \<open>
  \<^verbatim>\<open>[...thresholds].sort((a, b) => b.burnRate - a.burnRate)\<close>: descending by burn rate;
  the sort is stable, as \<^const>\<open>sort_key\<close> is.
\<close>

definition sortedThresholds :: "BurnThreshold list \<Rightarrow> BurnThreshold list" where
  "sortedThresholds ths = sort_key (\<lambda>t. - threshold_burnRate t) ths"

text \<open>
  The \<^verbatim>\<open>for\<close> loop over the sorted thresholds. The first threshold the burn rate
  reaches ends it: by \<^verbatim>\<open>return\<close> when the alert fires, by \<^verbatim>\<open>break\<close> (and the
  \<^verbatim>\<open>return { shouldAlert: false }\<close> after the loop) when it does not.
\<close>

fun scanThresholds :: "ISLO \<Rightarrow> number \<Rightarrow> int \<Rightarrow> BurnThreshold list \<Rightarrow> AlertDecision" where
  "scanThresholds s burnRate' now [] = \<lparr> shouldAlert = False, severity = None \<rparr>"
| "scanThresholds s burnRate' now (threshold # rest) =
     (if number_ge burnRate' (threshold_burnRate threshold) then
        (let oneHourAgo = now - 60 * 60 * 1000;
             shouldAlert' =
               (case lastBurnAlertState s of
                  None \<Rightarrow> True
                | Some lastAlert \<Rightarrow>
                    alert_severity lastAlert \<noteq> threshold_severity threshold
                    \<or> alert_timestamp lastAlert < oneHourAgo)
         in if shouldAlert'
              then \<lparr> shouldAlert = True, severity = Some (threshold_severity threshold) \<rparr>
            else \<lparr> shouldAlert = False, severity = None \<rparr>)
      else scanThresholds s burnRate' now rest)"

text \<open>
  \<^verbatim>\<open>checkSLOBurnAlerts(slo, burnRate, achieved, target, errorBudgetRemaining, webhook)\<close>,
  with \<open>now\<close> the reading of the clock. The SLO is an object passed by reference: the
  result carries the SLO as the call leaves it, and the effects of the call.
\<close>

definition checkSLOBurnAlerts ::
  "ISLO \<Rightarrow> number \<Rightarrow> real \<Rightarrow> real \<Rightarrow> real \<Rightarrow> IWebhook option \<Rightarrow> int
     \<Rightarrow> AlertDecision \<times> ISLO \<times> effect list" where
  "checkSLOBurnAlerts s burnRate' achieved' target' errorBudgetRemaining' webhook now =
    (case burnAlerts s of
       None \<Rightarrow> (\<lparr> shouldAlert = False, severity = None \<rparr>, s, [])
     | Some ba \<Rightarrow>
        if \<not> enabled ba \<or> length (thresholds ba) = 0
          then (\<lparr> shouldAlert = False, severity = None \<rparr>, s, [])
        else
          (case webhook of
             None \<Rightarrow>
               (\<lparr> shouldAlert = False, severity = None \<rparr>, s,
                [Log LogWarn ''SLO has burn alerts enabled but no webhook configured''])
           | Some w \<Rightarrow>
               (scanThresholds s burnRate' now (sortedThresholds (thresholds ba)), s, [])))"

text \<open>
  \<^verbatim>\<open>sendSLOBurnAlert\<close>. \<open>deliver\<close> tells whether \<^verbatim>\<open>handleSendGenericWebhook\<close>
  succeeds, \<open>frontendUrl\<close> is \<^verbatim>\<open>process.env.FRONTEND_URL || ''\<close>. A failed delivery is
  logged and thrown again.
\<close>

definition sendSLOBurnAlert ::
  "(IWebhook \<Rightarrow> BurnAlertMessage \<Rightarrow> bool) \<Rightarrow> string \<Rightarrow> ISLO \<Rightarrow> number \<Rightarrow> severity
     \<Rightarrow> IWebhook \<Rightarrow> real \<Rightarrow> real \<Rightarrow> real \<Rightarrow> int \<Rightarrow> (error + unit) \<times> ISLO \<times> effect list" where
  "sendSLOBurnAlert deliver frontendUrl s burnRate' severity' webhook achieved' target'
       errorBudgetRemaining' now =
    (let m = \<lparr> msg_hdxLink = frontendUrl @ ''/slos/'' @ slo_id s,
               msg_serviceName = serviceName s, msg_sloName = sloName s,
               msg_severity = severity', msg_burnRate = burnRate',
               msg_target = target', msg_achieved = achieved',
               msg_errorBudgetRemaining = errorBudgetRemaining',
               msg_startTime = now, msg_endTime = now,
               msg_eventId = (slo_id s, severity', now) \<rparr>
     in if deliver webhook m
          then (Inr (), s, [SendWebhook webhook m,
                            Log LogInfo ''Sent SLO burn alert notification''])
        else (Inl WebhookError, s,
              [SendWebhook webhook m,
               Log LogError ''Failed to send SLO burn alert notification'']))"

section \<open>Concrete data\<close>

text \<open>
  An SLO in raw mode (no \<^verbatim>\<open>filter\<close>, no \<^verbatim>\<open>goodCondition\<close>) with target 99.5 over
  30 days, and the variations the examples below use. The numbers of the examples are
  doubles.
\<close>

definition example_slo :: ISLO where
  "example_slo =
     \<lparr> slo_id = ''slo1'', team = ''team1'', serviceName = ''checkout'',
       sloName = ''availability'', targetValue = 199 / 2, timeWindow = ''30d'',
       sourceTable = ''otel_logs'', slo_filter = None, goodCondition = None,
       burnAlerts = None, lastBurnAlertState = None \<rparr>"

definition example_ms :: "string \<Rightarrow> real option" where
  "example_ms w =
     (if w = ''30d'' then Some 2592000000
      else if w = ''-1d'' then Some (- 86400000)
      else None)"

text \<open>The clock stands at 30 days and 100 seconds: the window starts at second 100.\<close>

definition example_clock :: "nat \<Rightarrow> int" where
  "example_clock k = 2592100000"

definition example_row :: "int \<Rightarrow> nat \<Rightarrow> nat \<Rightarrow> agg_row" where
  "example_row t n d =
     \<lparr> row_slo_id = ''slo1'', row_timestamp = t, numerator_count = n, denominator_count = d \<rparr>"

definition example_clickhouse :: "agg_row list \<Rightarrow> ClickHouse" where
  "example_clickhouse rows =
     \<lparr> available = True, slo_aggregates = rows, rawCounts = (\<lambda>g tbl f a b. (0, 0)) \<rparr>"

definition example_webhook :: IWebhook where
  "example_webhook = \<lparr> webhook_id = ''hook1'', webhook_url = ''https://hooks.example/1'' \<rparr>"

definition example_thresholds :: "BurnThreshold list" where
  "example_thresholds =
     [\<lparr> threshold_burnRate = 1, threshold_severity = warning \<rparr>,
      \<lparr> threshold_burnRate = 3, threshold_severity = critical \<rparr>]"

text \<open>
  Aggregate rows of the example SLO inside its window (two of them in one bucket), and
  rows of which one is stamped 100 seconds after the reading of the clock.
\<close>

definition example_rows_past :: "agg_row list" where
  "example_rows_past = [example_row 220 3 4, example_row 160 998 1000, example_row 220 1 1]"

definition example_rows_future :: "agg_row list" where
  "example_rows_future = [example_row 160 998 1000, example_row 2592200 1 2]"

text \<open>The example SLO with burn alerts enabled and a given alert memory.\<close>

definition example_alerting_slo :: "BurnAlertState option \<Rightarrow> ISLO" where
  "example_alerting_slo lastAlert =
     example_slo\<lparr> burnAlerts := Some \<lparr> enabled = True, thresholds = example_thresholds \<rparr>,
                  lastBurnAlertState := lastAlert \<rparr>"


section \<open>Facts about the rounding\<close>

lemma expo_bounds:
  "0 < x \<Longrightarrow> 2 powi expo x \<le> x \<and> x < 2 powi (expo x + 1)"
proof (induction x rule: expo.induct)
  case (1 x)
  show ?case
  proof (cases "2 \<le> x")
    case True
    then have e: "expo x = expo (x / 2) + 1" by (subst expo.simps) simp
    from True have "0 < x / 2" by simp
    from "1.IH"(1)[OF True this]
    have a: "2 powi expo (x / 2) \<le> x / 2" and b: "x / 2 < 2 powi (expo (x / 2) + 1)" by auto
    have p1: "(2::real) powi (expo (x / 2) + 1) = 2 powi expo (x / 2) * 2"
      by (rule power_int_add_1) simp
    have p2: "(2::real) powi (expo (x / 2) + 1 + 1) = 2 powi (expo (x / 2) + 1) * 2"
      by (rule power_int_add_1) simp
    from a b show ?thesis unfolding e p2 unfolding p1 by linarith
  next
    case False
    show ?thesis
    proof (cases "x < 1")
      case True
      with "1.prems" False have e: "expo x = expo (2 * x) - 1" by (subst expo.simps) simp
      from "1.prems" True have c: "0 < x \<and> x < 1" by simp
      from "1.prems" have "0 < 2 * x" by simp
      from "1.IH"(2)[OF False c this]
      have a: "2 powi expo (2 * x) \<le> 2 * x" and b: "2 * x < 2 powi (expo (2 * x) + 1)" by auto
      have p0: "(2::real) powi expo (2 * x) = 2 powi (expo (2 * x) - 1) * 2"
        using power_int_add_1[of "2::real" "expo (2 * x) - 1"] by simp
      have p1: "(2::real) powi (expo (2 * x) + 1) = 2 powi expo (2 * x) * 2"
        by (rule power_int_add_1) simp
      have "2 powi (expo (2 * x) - 1) \<le> x" using a unfolding p0 by linarith
      moreover have "x < 2 powi (expo (2 * x) - 1 + 1)" using b unfolding p1 by simp
      ultimately show ?thesis unfolding e by simp
    next
      case ge1: False
      with False have e: "expo x = 0" by (subst expo.simps) simp
      from ge1 False show ?thesis unfolding e by simp
    qed
  qed
qed

lemma pow2_less_cancel:
  assumes "(2::real) powi a < 2 powi b"
  shows "a < b"
proof (rule ccontr)
  assume "\<not> a < b"
  then have "b \<le> a" by simp
  then have "(2::real) powi b \<le> 2 powi a" by (rule power_int_increasing) simp
  with assms show False by simp
qed

lemma expo_unique:
  assumes "0 < x" and "2 powi e \<le> x" and "x < 2 powi (e + 1)"
  shows "expo x = e"
proof -
  from expo_bounds[OF assms(1)]
  have a: "2 powi expo x \<le> x" and b: "x < 2 powi (expo x + 1)" by auto
  have "(2::real) powi e < 2 powi (expo x + 1)" using assms(2) b by linarith
  then have "e < expo x + 1" by (rule pow2_less_cancel)
  moreover have "(2::real) powi expo x < 2 powi (e + 1)" using a assms(3) by linarith
  then have "expo x < e + 1" by (rule pow2_less_cancel)
  ultimately show ?thesis by simp
qed

lemma round_even_near:
  "of_int (round_even r) \<le> r + 1 / 2 \<and> r - 1 / 2 \<le> of_int (round_even r)"
proof -
  define f where "f = \<lfloor>r\<rfloor>"
  have f: "of_int f \<le> r" "r < of_int f + 1" unfolding f_def by linarith+
  have "round_even r = f \<and> r - of_int f \<le> 1 / 2
        \<or> round_even r = f + 1 \<and> 1 / 2 \<le> r - of_int f"
    unfolding round_even_def Let_def f_def[symmetric] by auto
  then show ?thesis
  proof
    assume "round_even r = f \<and> r - of_int f \<le> 1 / 2"
    with f show ?thesis by simp
  next
    assume a: "round_even r = f + 1 \<and> 1 / 2 \<le> r - of_int f"
    then have "(of_int (round_even r) :: real) = of_int f + 1" by simp
    with a f show ?thesis by linarith
  qed
qed

lemma round_even_of_int [simp]: "round_even (of_int k) = k"
  by (simp add: round_even_def)

lemma round_even_mono:
  assumes "r \<le> s"
  shows "round_even r \<le> round_even s"
proof (rule ccontr)
  assume "\<not> round_even r \<le> round_even s"
  then have "round_even s + 1 \<le> round_even r" by simp
  then have "(of_int (round_even s + 1) :: real) \<le> of_int (round_even r)"
    by (simp only: of_int_le_iff)
  then have g: "(of_int (round_even s) :: real) + 1 \<le> of_int (round_even r)" by simp
  from round_even_near[of r] round_even_near[of s] g assms
  have "r = s" by linarith
  with \<open>\<not> round_even r \<le> round_even s\<close> show False by simp
qed

lemma round_even_le:
  "r \<le> of_int k \<Longrightarrow> round_even r \<le> k"
  using round_even_mono[of r "of_int k"] by simp

lemma round_even_ge:
  "of_int k \<le> r \<Longrightarrow> k \<le> round_even r"
  using round_even_mono[of "of_int k" r] by simp

lemma fl_0 [simp]: "fl 0 = 0"
  by (simp add: fl_def)

lemma fl_minus: "fl (- x) = - fl x"
  by (simp add: fl_def Let_def sgn_minus)

lemma fl_pos:
  assumes "0 < x"
  shows "fl x = of_int (round_even (x / 2 powi (max (expo x) (- 1022) - 52)))
                  * 2 powi (max (expo x) (- 1022) - 52)"
  using assms by (simp add: fl_def Let_def)


lemma fl_nonneg: "0 \<le> x \<Longrightarrow> 0 \<le> fl x"
proof (cases "x = 0")
  case True
  then show ?thesis by simp
next
  case False
  assume "0 \<le> x"
  with False have x: "0 < x" by simp
  let ?q = "(2::real) powi (max (expo x) (- 1022) - 52)"
  have q: "0 < ?q" by simp
  then have "(of_int 0 :: real) \<le> x / ?q" using x by simp
  then have "0 \<le> round_even (x / ?q)" by (rule round_even_ge)
  then have "(0::real) \<le> of_int (round_even (x / ?q))" by simp
  with q show ?thesis unfolding fl_pos[OF x] by (intro mult_nonneg_nonneg) simp_all
qed

lemma pow2_split: "(2::real) powi a = 2 powi (a - b) * 2 powi b"
proof -
  have "(2::real) powi (a - b) * 2 powi b = 2 powi ((a - b) + b)"
    by (rule power_int_add[symmetric]) simp
  then show ?thesis by simp
qed

text \<open>Between two powers of two the rounded value stays between them.\<close>

lemma fl_upper:
  assumes "0 < x" and "x \<le> 2 powi (m + 1)" and "max (expo x) (- 1022) \<le> m"
  shows "fl x \<le> 2 powi (m + 1)"
proof -
  let ?e = "max (expo x) (- 1022)"
  let ?q = "(2::real) powi (?e - 52)"
  have q: "0 < ?q" by simp
  have "(2::real) powi (m + 1) = 2 powi (m + 1 - (?e - 52)) * ?q"
    by (rule pow2_split)
  moreover have "0 \<le> m + 1 - (?e - 52)" using assms(3) by linarith
  then have "(2::real) powi (m + 1 - (?e - 52)) = of_int (2 ^ nat (m + 1 - (?e - 52)))"
    by (simp add: power_int_nonneg_exp)
  ultimately have p: "(2::real) powi (m + 1) = of_int (2 ^ nat (m + 1 - (?e - 52))) * ?q"
    by simp
  have "x / ?q \<le> of_int (2 ^ nat (m + 1 - (?e - 52)))"
    using assms(2) q unfolding p by (simp add: divide_le_eq)
  then have "round_even (x / ?q) \<le> 2 ^ nat (m + 1 - (?e - 52))" by (rule round_even_le)
  then have "(of_int (round_even (x / ?q)) :: real) \<le> of_int (2 ^ nat (m + 1 - (?e - 52)))"
    by (simp only: of_int_le_iff)
  then have "of_int (round_even (x / ?q)) * ?q \<le> of_int (2 ^ nat (m + 1 - (?e - 52))) * ?q"
    using q by (intro mult_right_mono) simp_all
  then show ?thesis unfolding fl_pos[OF assms(1)] p .
qed






lemma fl_fixed:
  assumes "0 < v" and "v / 2 powi (max (expo v) (- 1022) - 52) = of_int j"
  shows "fl v = v"
proof -
  let ?q = "(2::real) powi (max (expo v) (- 1022) - 52)"
  have q: "?q \<noteq> 0" by simp
  have "fl v = of_int (round_even (of_int j)) * ?q"
    unfolding fl_pos[OF assms(1)] assms(2) ..
  also have "\<dots> = (v / ?q) * ?q" by (simp add: assms(2))
  also have "\<dots> = v" using q by simp
  finally show ?thesis .
qed

lemma fl_idem_pos:
  assumes "0 < x"
  shows "fl (fl x) = fl x"
proof (cases "fl x = 0")
  case True
  then show ?thesis by simp
next
  case False
  with fl_nonneg[of x] assms have v: "0 < fl x" by simp
  let ?e = "max (expo x) (- 1022)"
  let ?q = "(2::real) powi (?e - 52)"
  let ?k = "round_even (x / ?q)"
  let ?ev = "max (expo (fl x)) (- 1022)"
  have flx: "fl x = of_int ?k * ?q" by (rule fl_pos[OF assms])
  have "x < 2 powi (expo x + 1)" using expo_bounds[OF assms] by simp
  also have "(2::real) powi (expo x + 1) \<le> 2 powi (?e + 1)"
    by (rule power_int_increasing) simp_all
  finally have "x \<le> 2 powi (?e + 1)" by simp
  then have up: "fl x \<le> 2 powi (?e + 1)" by (rule fl_upper[OF assms]) simp
  show ?thesis
  proof (cases "fl x = 2 powi (?e + 1)")
    case True
    have "expo (fl x) = ?e + 1"
    proof (rule expo_unique[OF v])
      show "2 powi (?e + 1) \<le> fl x" using True by simp
      have "(2::real) powi (?e + 1) < 2 powi (?e + 1 + 1)"
        by (rule power_int_strict_increasing) simp_all
      then show "fl x < 2 powi (?e + 1 + 1)" using True by simp
    qed
    then have ev: "?ev = ?e + 1" by linarith
    define K :: int where "K = 2 ^ 52"
    define qv :: real where "qv = 2 powi (?ev - 52)"
    have qv: "qv \<noteq> 0" by (simp add: qv_def)
    have "(2::real) powi (?e + 1) = 2 powi (?e + 1 - (?ev - 52)) * qv"
      unfolding qv_def by (rule pow2_split)
    moreover have d: "?e + 1 - (?ev - 52) = 52" using ev by linarith
    have "(2::real) powi (?e + 1 - (?ev - 52)) = of_int K"
      by (simp only: d K_def) simp
    ultimately have "fl x = of_int K * qv" using True by simp
    then have "fl x / qv = of_int K" using qv by simp
    then show ?thesis unfolding qv_def by (rule fl_fixed[OF v])
  next
    case ne: False
    with up have "fl x < 2 powi (?e + 1)" by simp
    with expo_bounds[OF v] have "(2::real) powi expo (fl x) < 2 powi (?e + 1)" by linarith
    then have "expo (fl x) < ?e + 1" by (rule pow2_less_cancel)
    then have le: "?ev \<le> ?e" by linarith
    define K :: int where "K = 2 ^ nat (?e - ?ev)"
    define qv :: real where "qv = 2 powi (?ev - 52)"
    have qv: "qv \<noteq> 0" by (simp add: qv_def)
    have "?q = 2 powi (?e - 52 - (?ev - 52)) * qv" unfolding qv_def by (rule pow2_split)
    moreover have "?e - 52 - (?ev - 52) = int (nat (?e - ?ev))" using le by linarith
    then have "(2::real) powi (?e - 52 - (?ev - 52)) = of_int K"
      by (simp only: power_int_of_nat K_def) simp
    ultimately have "?q = of_int K * qv" by simp
    then have "fl x = of_int (?k * K) * qv"
      by (simp only: flx of_int_mult mult.assoc)
    then have "fl x / qv = of_int (?k * K)" using qv by simp
    then show ?thesis unfolding qv_def by (rule fl_fixed[OF v])
  qed
qed

lemma fl_idem [simp]: "fl (fl x) = fl x"
proof (cases "0 < x")
  case True
  then show ?thesis by (rule fl_idem_pos)
next
  case False
  show ?thesis
  proof (cases "x = 0")
    case True
    then show ?thesis by simp
  next
    case ne: False
    with False have "0 < - x" by simp
    then have "fl (fl (- x)) = fl (- x)" by (rule fl_idem_pos)
    then show ?thesis by (simp add: fl_minus)
  qed
qed

text \<open>Doubles that the code meets: they are their own rounding.\<close>

lemma fl_1 [simp]: "fl 1 = 1"
  by (simp add: fl_def expo.simps round_even_def)

lemma fl_100 [simp]: "fl 100 = 100"
  by (simp add: fl_def expo.simps round_even_def)








section \<open>Facts about the status evaluator\<close>

lemma statusFromCounts_slo [simp]: "slo (statusFromCounts s W num den ws we t) = s"
  by (simp add: statusFromCounts_def Let_def)

lemma statusFromCounts_numerator [simp]:
  "numerator (statusFromCounts s W num den ws we t) = num"
  by (simp add: statusFromCounts_def Let_def)

lemma statusFromCounts_denominator [simp]:
  "denominator (statusFromCounts s W num den ws we t) = den"
  by (simp add: statusFromCounts_def Let_def)

lemma statusFromCounts_target [simp]:
  "target (statusFromCounts s W num den ws we t) = targetValue s"
  by (simp add: statusFromCounts_def Let_def)

lemma statusFromCounts_windowStart [simp]:
  "windowStart (statusFromCounts s W num den ws we t) = ws"
  by (simp add: statusFromCounts_def Let_def)
















text \<open>Every result of \<open>getSLOStatus\<close> comes from the counts of one query.\<close>

lemma getSLOStatus_SomeD:
  assumes "getSLOStatus slos ch ms clock sloId teamId realtime = (Some r, effs)"
  shows "\<exists>s W num den ws we t. findOne slos sloId teamId = Some s \<and> ms (timeWindow s) = Some W
           \<and> r = statusFromCounts s W num den ws we t"
proof -
  from assms obtain s where s: "findOne slos sloId teamId = Some s"
    by (auto simp: getSLOStatus_def split: option.splits)
  from assms s obtain W where W: "ms (timeWindow s) = Some W"
    by (auto simp: getSLOStatus_def split: option.splits)
  from assms s W have "\<exists>num den ws we t. r = statusFromCounts s W num den ws we t"
    by (auto simp: getSLOStatus_def Let_def split: if_splits prod.splits) blast+
  with s W show ?thesis by blast
qed

lemma getSLOStatus_aggregated:
  assumes "findOne slos sloId teamId = Some s" and "ms (timeWindow s) = Some W"
      and "available ch"
      and "\<not> (realtime \<and> truthy (slo_filter s) \<and> truthy (goodCondition s))"
  shows "getSLOStatus slos ch ms clock sloId teamId realtime =
     (Some (statusFromCounts s W
              (fst (statusQuery (slo_aggregates ch) (slo_id s)
                      (toDateTime (newDate (fsub (real_of_int (clock 0)) W)))))
              (snd (statusQuery (slo_aggregates ch) (slo_id s)
                      (toDateTime (newDate (fsub (real_of_int (clock 0)) W)))))
              (newDate (fsub (real_of_int (clock 0)) W)) (clock 1) (clock 2)),
      [MongoFindOne sloId teamId,
       ClickHouseQuery (StatusQuery (slo_id s)
                          (toDateTime (newDate (fsub (real_of_int (clock 0)) W))))])"
  using assms by (auto simp: getSLOStatus_def Let_def split_beta)


section \<open>The examples, evaluated\<close>

lemma example_windowStart:
  "newDate (fsub (real_of_int (example_clock 0)) 2592000000) = 100000"
  by (simp add: example_clock_def newDate_def fsub_def fl_def expo.simps round_even_def)

lemma example_getSLOStatus:
  assumes "slo_id s = ''slo1''" and "team s = ''team1''" and "timeWindow s = ''30d''"
      and "\<not> (rt \<and> truthy (slo_filter s) \<and> truthy (goodCondition s))"
  shows "getSLOStatus [s] (example_clickhouse rows) example_ms example_clock
           ''slo1'' ''team1'' rt =
     (Some (statusFromCounts s 2592000000
              (fst (statusQuery rows ''slo1'' 100)) (snd (statusQuery rows ''slo1'' 100))
              100000 2592100000 2592100000),
      [MongoFindOne ''slo1'' ''team1'', ClickHouseQuery (StatusQuery ''slo1'' 100)])"
proof -
  have f: "findOne [s] ''slo1'' ''team1'' = Some s"
    using assms(1,2) by (simp add: findOne_def)
  have m: "example_ms (timeWindow s) = Some 2592000000"
    using assms(3) by (simp add: example_ms_def)
  have a: "available (example_clickhouse rows)"
    by (simp add: example_clickhouse_def)
  show ?thesis
    unfolding getSLOStatus_aggregated[where ms = example_ms, OF f m a assms(4)]
      example_windowStart
    by (simp add: assms(1) example_clickhouse_def example_clock_def toDateTime_def)
qed


lemma example_slo_fields:
  "slo_id (example_slo\<lparr>targetValue := tv\<rparr>) = ''slo1''"
  "team (example_slo\<lparr>targetValue := tv\<rparr>) = ''team1''"
  "timeWindow (example_slo\<lparr>targetValue := tv\<rparr>) = ''30d''"
  "slo_filter (example_slo\<lparr>targetValue := tv\<rparr>) = None"
  "goodCondition (example_slo\<lparr>targetValue := tv\<rparr>) = None"
  "targetValue (example_slo\<lparr>targetValue := tv\<rparr>) = tv"
  by (simp_all add: example_slo_def)






section \<open>Claims about the status evaluator\<close>















section \<open>Claims about the two read paths\<close>

text \<open>The sums of the groups of a list add up to the sum of the list.\<close>

lemma sum_list_pick:
  fixes c :: nat
  assumes "distinct ks"
  shows "(\<Sum>k\<leftarrow>ks. if a = k then c else 0) = (if a \<in> set ks then c else 0)"
  using assms by (induction ks) auto

lemma sum_list_by_key:
  fixes f :: "'a \<Rightarrow> nat"
  assumes "distinct ks" and "key ` set xs \<subseteq> set ks"
  shows "(\<Sum>k\<leftarrow>ks. sum_list (map f (filter (\<lambda>x. key x = k) xs))) = sum_list (map f xs)"
  using assms(2)
proof (induction xs)
  case Nil
  then show ?case by simp
next
  case (Cons x xs)
  have "(\<Sum>k\<leftarrow>ks. sum_list (map f (filter (\<lambda>y. key y = k) (x # xs))))
      = (\<Sum>k\<leftarrow>ks. (if key x = k then f x else 0)
                    + sum_list (map f (filter (\<lambda>y. key y = k) xs)))"
    by (rule arg_cong[where f = sum_list]) (rule map_cong, auto)
  also have "\<dots> = (\<Sum>k\<leftarrow>ks. if key x = k then f x else 0)
                  + (\<Sum>k\<leftarrow>ks. sum_list (map f (filter (\<lambda>y. key y = k) xs)))"
    by (simp add: sum_list_addf)
  also have "\<dots> = f x + sum_list (map f xs)"
    using Cons by (simp add: sum_list_pick[OF assms(1)])
  finally show ?case by simp
qed

lemma burnRateQuery_numerators:
  "sum_list (map (\<lambda>(t, n, d). n) (burnRateQuery rows sloId a b)) =
   sum_list (map numerator_count
     (filter (\<lambda>r. row_slo_id r = sloId \<and> a \<le> row_timestamp r \<and> row_timestamp r \<le> b) rows))"
proof -
  let ?sel = "filter (\<lambda>r. row_slo_id r = sloId \<and> a \<le> row_timestamp r \<and> row_timestamp r \<le> b) rows"
  let ?ks = "sort (remdups (map row_timestamp ?sel))"
  have d: "distinct ?ks" by simp
  have k: "row_timestamp ` set ?sel \<subseteq> set ?ks" by simp
  have "sum_list (map (\<lambda>(t, n, d). n) (burnRateQuery rows sloId a b)) =
        (\<Sum>k\<leftarrow>?ks. sum_list (map numerator_count (filter (\<lambda>r. row_timestamp r = k) ?sel)))"
    by (simp add: burnRateQuery_def Let_def comp_def)
  also have "\<dots> = sum_list (map numerator_count ?sel)"
    by (rule sum_list_by_key[OF d k])
  finally show ?thesis .
qed

lemma burnRateQuery_denominators:
  "sum_list (map (\<lambda>(t, n, d). d) (burnRateQuery rows sloId a b)) =
   sum_list (map denominator_count
     (filter (\<lambda>r. row_slo_id r = sloId \<and> a \<le> row_timestamp r \<and> row_timestamp r \<le> b) rows))"
proof -
  let ?sel = "filter (\<lambda>r. row_slo_id r = sloId \<and> a \<le> row_timestamp r \<and> row_timestamp r \<le> b) rows"
  let ?ks = "sort (remdups (map row_timestamp ?sel))"
  have d: "distinct ?ks" by simp
  have k: "row_timestamp ` set ?sel \<subseteq> set ?ks" by simp
  have "sum_list (map (\<lambda>(t, n, d). d) (burnRateQuery rows sloId a b)) =
        (\<Sum>k\<leftarrow>?ks. sum_list (map denominator_count (filter (\<lambda>r. row_timestamp r = k) ?sel)))"
    by (simp add: burnRateQuery_def Let_def comp_def)
  also have "\<dots> = sum_list (map denominator_count ?sel)"
    by (rule sum_list_by_key[OF d k])
  finally show ?thesis .
qed

lemma getSLOStatus_aggregated_counts:
  assumes "getSLOStatus slos ch ms clock sloId teamId False = (Some r, effs)"
  shows "numerator r = fst (statusQuery (slo_aggregates ch) (slo_id (slo r))
                              (toDateTime (windowStart r)))
       \<and> denominator r = snd (statusQuery (slo_aggregates ch) (slo_id (slo r))
                              (toDateTime (windowStart r)))"
proof -
  from getSLOStatus_SomeD[OF assms] obtain s W
    where s: "findOne slos sloId teamId = Some s" and W: "ms (timeWindow s) = Some W"
    by blast
  from assms s W have a: "available ch"
    by (auto simp: getSLOStatus_def Let_def split: if_splits)
  have "\<not> (False \<and> truthy (slo_filter s) \<and> truthy (goodCondition s))" by simp
  from getSLOStatus_aggregated[where ms = ms, OF s W a this, of clock] assms
  show ?thesis by auto
qed

text \<open>
  C5, as the code has it. The status query has no upper bound on the timestamp and the
  series query has one. The per-bucket numerators and denominators of the series query
  over \<open>[timeStart, timeEnd]\<close> add up to the numerator and denominator that
  \<open>getSLOStatus\<close> returns in aggregated mode for a window starting in the same second,
  provided no aggregate row of the SLO from the window start on is later than \<open>timeEnd\<close>.
\<close>

theorem C5_bucket_sums_agree:
  assumes "getSLOStatus slos ch ms clock sloId teamId False = (Some r, effs)"
      and "toDateTime timeStart = toDateTime (windowStart r)"
      and "\<forall>row \<in> set (slo_aggregates ch).
             row_slo_id row = slo_id (slo r) \<and> toDateTime timeStart \<le> row_timestamp row
               \<longrightarrow> row_timestamp row \<le> toDateTime timeEnd"
  shows "sum_list (map (\<lambda>(t, n, d). n)
            (burnRateQuery (slo_aggregates ch) (slo_id (slo r))
               (toDateTime timeStart) (toDateTime timeEnd))) = numerator r
       \<and> sum_list (map (\<lambda>(t, n, d). d)
            (burnRateQuery (slo_aggregates ch) (slo_id (slo r))
               (toDateTime timeStart) (toDateTime timeEnd))) = denominator r"
proof -
  have sel: "filter (\<lambda>row. row_slo_id row = slo_id (slo r) \<and> toDateTime timeStart \<le> row_timestamp row
                      \<and> row_timestamp row \<le> toDateTime timeEnd) (slo_aggregates ch)
           = filter (\<lambda>row. row_slo_id row = slo_id (slo r)
                      \<and> toDateTime (windowStart r) \<le> row_timestamp row) (slo_aggregates ch)"
    using assms(3) by (intro filter_cong) (auto simp: assms(2))
  show ?thesis
    using getSLOStatus_aggregated_counts[OF assms(1)]
    by (simp add: burnRateQuery_numerators burnRateQuery_denominators sel statusQuery_def Let_def)
qed

lemma example_statusQuery_past: "statusQuery example_rows_past ''slo1'' 100 = (1002, 1005)"
  by (simp add: statusQuery_def example_rows_past_def example_row_def)

lemma example_statusQuery_future: "statusQuery example_rows_future ''slo1'' 100 = (999, 1002)"
  by (simp add: statusQuery_def example_rows_future_def example_row_def)

lemma example_burnRateQuery_past:
  "burnRateQuery example_rows_past ''slo1'' 100 2592100 = [(160, 998, 1000), (220, 4, 5)]"
  by (simp add: burnRateQuery_def example_rows_past_def example_row_def)

lemma example_burnRateQuery_future:
  "burnRateQuery example_rows_future ''slo1'' 100 2592100 = [(160, 998, 1000)]"
  by (simp add: burnRateQuery_def example_rows_future_def example_row_def)

theorem C5_bucket_sums_agree_witness:
  "map_option numerator (fst (getSLOStatus [example_slo\<lparr>targetValue := 99\<rparr>]
       (example_clickhouse example_rows_past) example_ms example_clock
       ''slo1'' ''team1'' False)) = Some 1002
   \<and> map_option denominator (fst (getSLOStatus [example_slo\<lparr>targetValue := 99\<rparr>]
       (example_clickhouse example_rows_past) example_ms example_clock
       ''slo1'' ''team1'' False)) = Some 1005
   \<and> sum_list (map (\<lambda>(t, n, d). n)
        (burnRateQuery example_rows_past ''slo1''
           (toDateTime 100000) (toDateTime 2592100000))) = 1002
   \<and> sum_list (map (\<lambda>(t, n, d). d)
        (burnRateQuery example_rows_past ''slo1''
           (toDateTime 100000) (toDateTime 2592100000))) = 1005"
proof -
  let ?s = "example_slo\<lparr>targetValue := 99\<rparr>"
  let ?r = "statusFromCounts ?s 2592000000 1002 1005 100000 2592100000 2592100000"
  have e: "getSLOStatus [?s] (example_clickhouse example_rows_past) example_ms example_clock
             ''slo1'' ''team1'' False =
           (Some ?r, [MongoFindOne ''slo1'' ''team1'', ClickHouseQuery (StatusQuery ''slo1'' 100)])"
    by (simp add: example_getSLOStatus example_slo_fields example_statusQuery_past)
  have w: "toDateTime 100000 = toDateTime (windowStart ?r)" by simp
  have b: "\<forall>row \<in> set (slo_aggregates (example_clickhouse example_rows_past)).
             row_slo_id row = slo_id (slo ?r) \<and> toDateTime 100000 \<le> row_timestamp row
               \<longrightarrow> row_timestamp row \<le> toDateTime 2592100000"
    by (simp add: example_clickhouse_def example_rows_past_def example_row_def toDateTime_def)
  from C5_bucket_sums_agree[OF e w b] e show ?thesis
    by (simp add: example_clickhouse_def example_slo_fields)
qed

text \<open>
  Without the proviso the sums differ: with the end of the range at the reading of the
  clock and one row stamped after it, the status evaluator counts the row and the series
  does not.
\<close>

theorem C5_bucket_sums_counterexample:
  "map_option windowStart (fst (getSLOStatus [example_slo\<lparr>targetValue := 99\<rparr>]
       (example_clickhouse example_rows_future) example_ms example_clock
       ''slo1'' ''team1'' False)) = Some 100000
   \<and> map_option numerator (fst (getSLOStatus [example_slo\<lparr>targetValue := 99\<rparr>]
       (example_clickhouse example_rows_future) example_ms example_clock
       ''slo1'' ''team1'' False)) = Some 999
   \<and> map_option denominator (fst (getSLOStatus [example_slo\<lparr>targetValue := 99\<rparr>]
       (example_clickhouse example_rows_future) example_ms example_clock
       ''slo1'' ''team1'' False)) = Some 1002
   \<and> sum_list (map (\<lambda>(t, n, d). n)
        (burnRateQuery example_rows_future ''slo1''
           (toDateTime 100000) (toDateTime (example_clock 1)))) = 998
   \<and> sum_list (map (\<lambda>(t, n, d). d)
        (burnRateQuery example_rows_future ''slo1''
           (toDateTime 100000) (toDateTime (example_clock 1)))) = 1000"
  by (simp add: example_getSLOStatus example_slo_fields example_statusQuery_future
      example_burnRateQuery_future toDateTime_def example_clock_def)




section \<open>Claims about the alert evaluator\<close>

text \<open>The loop returns at the first threshold that the burn rate reaches.\<close>

lemma scanThresholds_find:
  "scanThresholds s br now ths =
     (case find (\<lambda>t. number_ge br (threshold_burnRate t)) ths of
        None \<Rightarrow> \<lparr> shouldAlert = False, severity = None \<rparr>
      | Some th \<Rightarrow>
          if (case lastBurnAlertState s of
                None \<Rightarrow> True
              | Some l \<Rightarrow> alert_severity l \<noteq> threshold_severity th
                          \<or> alert_timestamp l < now - 3600000)
            then \<lparr> shouldAlert = True, severity = Some (threshold_severity th) \<rparr>
          else \<lparr> shouldAlert = False, severity = None \<rparr>)"
  by (induction ths) (simp_all add: Let_def)

lemma find_descending_highest:
  assumes "sorted (map (\<lambda>t. - threshold_burnRate t) xs)"
      and "find (\<lambda>t. number_ge br (threshold_burnRate t)) xs = Some th"
  shows "th \<in> set xs \<and> number_ge br (threshold_burnRate th)
       \<and> (\<forall>t \<in> set xs. number_ge br (threshold_burnRate t)
             \<longrightarrow> threshold_burnRate t \<le> threshold_burnRate th)"
  using assms
proof (induction xs)
  case Nil
  then show ?case by simp
next
  case (Cons x xs)
  show ?case
  proof (cases "number_ge br (threshold_burnRate x)")
    case True
    with Cons.prems(2) have "th = x" by simp
    with True Cons.prems(1) show ?thesis by auto
  next
    case False
    with Cons.prems(2) have "find (\<lambda>t. number_ge br (threshold_burnRate t)) xs = Some th"
      by simp
    moreover from Cons.prems(1) have "sorted (map (\<lambda>t. - threshold_burnRate t) xs)"
      by simp
    ultimately show ?thesis using Cons.IH False by auto
  qed
qed

lemma find_sortedThresholds_highest:
  assumes "find (\<lambda>t. number_ge br (threshold_burnRate t)) (sortedThresholds ths) = Some th"
  shows "th \<in> set ths \<and> number_ge br (threshold_burnRate th)
       \<and> (\<forall>t \<in> set ths. number_ge br (threshold_burnRate t)
             \<longrightarrow> threshold_burnRate t \<le> threshold_burnRate th)"
proof -
  have "sorted (map (\<lambda>t. - threshold_burnRate t) (sortedThresholds ths))"
    unfolding sortedThresholds_def by (rule sorted_sort_key)
  from find_descending_highest[OF this assms] show ?thesis
    by (simp add: sortedThresholds_def)
qed

lemma find_sortedThresholds_None:
  "find P (sortedThresholds ths) = None \<longleftrightarrow> (\<forall>t \<in> set ths. \<not> P t)"
  by (auto simp: find_None_iff sortedThresholds_def)

lemma checkSLOBurnAlerts_enabled:
  assumes "burnAlerts s = Some ba" and "enabled ba" and "thresholds ba \<noteq> []"
  shows "checkSLOBurnAlerts s br ach tgt ebr (Some w) now =
           (scanThresholds s br now (sortedThresholds (thresholds ba)), s, [])"
  using assms by (simp add: checkSLOBurnAlerts_def)

lemma example_alerting_slo_fields:
  "burnAlerts (example_alerting_slo l) = Some \<lparr> enabled = True, thresholds = example_thresholds \<rparr>"
  "lastBurnAlertState (example_alerting_slo l) = l"
  by (simp_all add: example_alerting_slo_def)

lemma example_sortedThresholds:
  "sortedThresholds example_thresholds =
     [\<lparr> threshold_burnRate = 3, threshold_severity = critical \<rparr>,
      \<lparr> threshold_burnRate = 1, threshold_severity = warning \<rparr>]"
  by (simp add: sortedThresholds_def example_thresholds_def)

lemma example_thresholds_nonempty: "example_thresholds \<noteq> []"
  by (simp add: example_thresholds_def)

text \<open>
  C7. With alerts enabled, a webhook, and \<open>th\<close> the matched threshold (the first of the
  sorted thresholds that the burn rate reaches), the decision is to alert exactly when
  there is no prior alert state, or the prior severity differs from the severity of
  \<open>th\<close>, or the prior alert is older than one hour; the alert carries the severity of
  \<open>th\<close>. A prior alert of the same severity 30 minutes ago gives no alert, one 90
  minutes ago gives an alert, and a critical match after a prior warning gives an alert
  whatever the time elapsed.
\<close>

theorem C7_alert_hysteresis:
  assumes "burnAlerts s = Some ba" and "enabled ba" and "thresholds ba \<noteq> []"
      and "find (\<lambda>t. number_ge br (threshold_burnRate t)) (sortedThresholds (thresholds ba))
             = Some th"
  shows "(shouldAlert (fst (checkSLOBurnAlerts s br ach tgt ebr (Some w) now)) \<longleftrightarrow>
            lastBurnAlertState s = None
            \<or> (\<exists>l. lastBurnAlertState s = Some l
                  \<and> (alert_severity l \<noteq> threshold_severity th
                      \<or> alert_timestamp l < now - 60 * 60 * 1000)))
       \<and> (shouldAlert (fst (checkSLOBurnAlerts s br ach tgt ebr (Some w) now))
            \<longrightarrow> severity (fst (checkSLOBurnAlerts s br ach tgt ebr (Some w) now))
                  = Some (threshold_severity th))
       \<and> (lastBurnAlertState s
              = Some \<lparr> alert_severity = threshold_severity th,
                       alert_timestamp = now - 30 * 60 * 1000 \<rparr>
            \<longrightarrow> \<not> shouldAlert (fst (checkSLOBurnAlerts s br ach tgt ebr (Some w) now)))
       \<and> (lastBurnAlertState s
              = Some \<lparr> alert_severity = threshold_severity th,
                       alert_timestamp = now - 90 * 60 * 1000 \<rparr>
            \<longrightarrow> shouldAlert (fst (checkSLOBurnAlerts s br ach tgt ebr (Some w) now)))
       \<and> (\<forall>l. lastBurnAlertState s = Some l \<and> alert_severity l = warning
                \<and> threshold_severity th = critical
            \<longrightarrow> shouldAlert (fst (checkSLOBurnAlerts s br ach tgt ebr (Some w) now)))"
proof -
  have d: "fst (checkSLOBurnAlerts s br ach tgt ebr (Some w) now) =
           (if (case lastBurnAlertState s of
                  None \<Rightarrow> True
                | Some l \<Rightarrow> alert_severity l \<noteq> threshold_severity th
                            \<or> alert_timestamp l < now - 3600000)
              then \<lparr> shouldAlert = True, severity = Some (threshold_severity th) \<rparr>
            else \<lparr> shouldAlert = False, severity = None \<rparr>)"
    by (simp add: checkSLOBurnAlerts_enabled[OF assms(1-3)] scanThresholds_find assms(4))
  show ?thesis
    unfolding d by (cases "lastBurnAlertState s") auto
qed

theorem C7_alert_hysteresis_witness:
  "\<not> shouldAlert (fst (checkSLOBurnAlerts
        (example_alerting_slo
           (Some \<lparr> alert_severity = warning, alert_timestamp = 10000000 - 30 * 60 * 1000 \<rparr>))
        (Fin 2) 98 99 0 (Some example_webhook) 10000000))
   \<and> shouldAlert (fst (checkSLOBurnAlerts
        (example_alerting_slo
           (Some \<lparr> alert_severity = warning, alert_timestamp = 10000000 - 90 * 60 * 1000 \<rparr>))
        (Fin 2) 98 99 0 (Some example_webhook) 10000000))
   \<and> severity (fst (checkSLOBurnAlerts
        (example_alerting_slo
           (Some \<lparr> alert_severity = warning, alert_timestamp = 10000000 - 90 * 60 * 1000 \<rparr>))
        (Fin 2) 98 99 0 (Some example_webhook) 10000000)) = Some warning
   \<and> shouldAlert (fst (checkSLOBurnAlerts
        (example_alerting_slo
           (Some \<lparr> alert_severity = warning, alert_timestamp = 10000000 - 1 * 60 * 1000 \<rparr>))
        (Fin 4) 96 99 0 (Some example_webhook) 10000000))
   \<and> severity (fst (checkSLOBurnAlerts
        (example_alerting_slo
           (Some \<lparr> alert_severity = warning, alert_timestamp = 10000000 - 1 * 60 * 1000 \<rparr>))
        (Fin 4) 96 99 0 (Some example_webhook) 10000000)) = Some critical"
proof -
  let ?ba = "\<lparr> enabled = True, thresholds = example_thresholds \<rparr>"
  let ?warn = "\<lparr> threshold_burnRate = 1, threshold_severity = warning \<rparr>"
  let ?crit = "\<lparr> threshold_burnRate = 3, threshold_severity = critical \<rparr>"
  have en: "enabled ?ba" and ne: "thresholds ?ba \<noteq> []"
    by (simp_all add: example_thresholds_nonempty)
  have m2: "find (\<lambda>t. number_ge (Fin 2) (threshold_burnRate t))
              (sortedThresholds (thresholds ?ba)) = Some ?warn"
    by (simp add: example_sortedThresholds)
  have m4: "find (\<lambda>t. number_ge (Fin 4) (threshold_burnRate t))
              (sortedThresholds (thresholds ?ba)) = Some ?crit"
    by (simp add: example_sortedThresholds)
  note w30 = C7_alert_hysteresis[OF example_alerting_slo_fields(1) en ne m2,
      of "Some \<lparr> alert_severity = warning, alert_timestamp = 10000000 - 30 * 60 * 1000 \<rparr>"
         98 99 0 example_webhook 10000000]
  note w90 = C7_alert_hysteresis[OF example_alerting_slo_fields(1) en ne m2,
      of "Some \<lparr> alert_severity = warning, alert_timestamp = 10000000 - 90 * 60 * 1000 \<rparr>"
         98 99 0 example_webhook 10000000]
  note c1 = C7_alert_hysteresis[OF example_alerting_slo_fields(1) en ne m4,
      of "Some \<lparr> alert_severity = warning, alert_timestamp = 10000000 - 1 * 60 * 1000 \<rparr>"
         96 99 0 example_webhook 10000000]
  from w30 have a: "\<not> shouldAlert (fst (checkSLOBurnAlerts
        (example_alerting_slo
           (Some \<lparr> alert_severity = warning, alert_timestamp = 10000000 - 30 * 60 * 1000 \<rparr>))
        (Fin 2) 98 99 0 (Some example_webhook) 10000000))"
    by (simp add: example_alerting_slo_fields)
  from w90 have b: "shouldAlert (fst (checkSLOBurnAlerts
        (example_alerting_slo
           (Some \<lparr> alert_severity = warning, alert_timestamp = 10000000 - 90 * 60 * 1000 \<rparr>))
        (Fin 2) 98 99 0 (Some example_webhook) 10000000))"
    by (simp add: example_alerting_slo_fields)
  from c1 have c: "shouldAlert (fst (checkSLOBurnAlerts
        (example_alerting_slo
           (Some \<lparr> alert_severity = warning, alert_timestamp = 10000000 - 1 * 60 * 1000 \<rparr>))
        (Fin 4) 96 99 0 (Some example_webhook) 10000000))"
    by (simp add: example_alerting_slo_fields)
  from a b c w90 c1 show ?thesis by simp
qed

text \<open>
  C8. With alerts enabled, a non-empty threshold list and a webhook: an alert carries the
  severity of a threshold that the burn rate reaches and whose burn rate is the highest
  among those it reaches; when the burn rate reaches no threshold no alert fires; with no
  prior alert state every reached threshold list fires. The candidate is the first match
  of the thresholds sorted by burn rate, descending.
\<close>

theorem C8_threshold_selection:
  assumes "burnAlerts s = Some ba" and "enabled ba" and "thresholds ba \<noteq> []"
  shows "(shouldAlert (fst (checkSLOBurnAlerts s br ach tgt ebr (Some w) now)) \<longrightarrow>
            (\<exists>th \<in> set (thresholds ba).
                severity (fst (checkSLOBurnAlerts s br ach tgt ebr (Some w) now))
                  = Some (threshold_severity th)
                \<and> number_ge br (threshold_burnRate th)
                \<and> (\<forall>t \<in> set (thresholds ba). number_ge br (threshold_burnRate t)
                      \<longrightarrow> threshold_burnRate t \<le> threshold_burnRate th)))
       \<and> ((\<forall>t \<in> set (thresholds ba). \<not> number_ge br (threshold_burnRate t)) \<longrightarrow>
            fst (checkSLOBurnAlerts s br ach tgt ebr (Some w) now)
              = \<lparr> shouldAlert = False, severity = None \<rparr>)
       \<and> (lastBurnAlertState s = None
            \<and> (\<exists>t \<in> set (thresholds ba). number_ge br (threshold_burnRate t)) \<longrightarrow>
            shouldAlert (fst (checkSLOBurnAlerts s br ach tgt ebr (Some w) now)))
       \<and> (\<forall>th. find (\<lambda>t. number_ge br (threshold_burnRate t))
                  (sortedThresholds (thresholds ba)) = Some th \<longrightarrow>
             th \<in> set (thresholds ba) \<and> number_ge br (threshold_burnRate th)
             \<and> (\<forall>t \<in> set (thresholds ba). number_ge br (threshold_burnRate t)
                   \<longrightarrow> threshold_burnRate t \<le> threshold_burnRate th))"
proof -
  let ?P = "\<lambda>t. number_ge br (threshold_burnRate t)"
  let ?d = "fst (checkSLOBurnAlerts s br ach tgt ebr (Some w) now)"
  have d: "?d = scanThresholds s br now (sortedThresholds (thresholds ba))"
    by (simp add: checkSLOBurnAlerts_enabled[OF assms])
  show ?thesis
  proof (cases "find ?P (sortedThresholds (thresholds ba))")
    case None
    then have no: "\<forall>t \<in> set (thresholds ba). \<not> ?P t"
      by (simp add: find_sortedThresholds_None)
    from None have "?d = \<lparr> shouldAlert = False, severity = None \<rparr>"
      by (simp add: d scanThresholds_find)
    with no None show ?thesis by simp
  next
    case (Some th)
    note hi = find_sortedThresholds_highest[OF Some]
    have 1: "shouldAlert ?d \<longrightarrow> severity ?d = Some (threshold_severity th)"
      by (simp add: d scanThresholds_find Some)
    have 3: "lastBurnAlertState s = None \<longrightarrow> shouldAlert ?d"
      by (simp add: d scanThresholds_find Some)
    from hi have 2: "\<not> (\<forall>t \<in> set (thresholds ba). \<not> ?P t)" by blast
    show ?thesis
      using 1 2 3 hi Some by auto
  qed
qed

theorem C8_threshold_selection_witness:
  "shouldAlert (fst (checkSLOBurnAlerts (example_alerting_slo None) (Fin 4) 96 99 0
                       (Some example_webhook) 10000000))
   \<and> severity (fst (checkSLOBurnAlerts (example_alerting_slo None) (Fin 4) 96 99 0
                       (Some example_webhook) 10000000)) = Some critical
   \<and> fst (checkSLOBurnAlerts (example_alerting_slo None) (Fin (1 / 2)) 96 99 0
                       (Some example_webhook) 10000000)
       = \<lparr> shouldAlert = False, severity = None \<rparr>"
proof -
  let ?ba = "\<lparr> enabled = True, thresholds = example_thresholds \<rparr>"
  have en: "enabled ?ba" and ne: "thresholds ?ba \<noteq> []"
    by (simp_all add: example_thresholds_nonempty)
  note hi = C8_threshold_selection[OF example_alerting_slo_fields(1) en ne,
      of None "Fin 4" 96 99 0 example_webhook 10000000]
  note lo = C8_threshold_selection[OF example_alerting_slo_fields(1) en ne,
      of None "Fin (1 / 2)" 96 99 0 example_webhook 10000000]
  from hi have a: "shouldAlert (fst (checkSLOBurnAlerts (example_alerting_slo None) (Fin 4)
                       96 99 0 (Some example_webhook) 10000000))"
    by (simp add: example_alerting_slo_fields example_thresholds_def)
  with hi have b: "severity (fst (checkSLOBurnAlerts (example_alerting_slo None) (Fin 4)
                       96 99 0 (Some example_webhook) 10000000)) = Some critical"
    by (simp add: example_thresholds_def)
  from lo have c: "fst (checkSLOBurnAlerts (example_alerting_slo None) (Fin (1 / 2)) 96 99 0
                       (Some example_webhook) 10000000)
       = \<lparr> shouldAlert = False, severity = None \<rparr>"
    by (simp add: example_thresholds_def)
  from a b c show ?thesis by simp
qed

section \<open>Claims about the burn-rate series builder\<close>

text \<open>
  C9. Every point that \<open>getSLOBurnRate\<close> returns has \<open>errorBudgetRemaining\<close> equal to
  \<open>0\<close>, whatever the counts of its bucket.
\<close>

theorem C9_series_budget_placeholder:
  assumes "getSLOBurnRate slos ch localTime sloId teamId timeStart timeEnd = (Inr points, effs)"
  shows "\<forall>p \<in> set points. point_errorBudgetRemaining p = 0"
  using assms
  by (auto simp: getSLOBurnRate_def Let_def split: option.splits if_splits)

lemma example_getSLOBurnRate:
  "getSLOBurnRate [example_slo\<lparr>targetValue := 99\<rparr>] (example_clickhouse example_rows_past)
       (\<lambda>t. t * 1000) ''slo1'' ''team1'' 100000 2592100000 =
     (Inr [\<lparr> point_timestamp = 160000,
              point_achieved = 7022800668930867 / 70368744177664,
              point_burnRate = Fin (3602879701896397 / 18014398509481984),
              point_errorBudgetRemaining = 0 \<rparr>,
           \<lparr> point_timestamp = 220000, point_achieved = 80,
              point_burnRate = Fin (2814749767106557 / 140737488355328),
              point_errorBudgetRemaining = 0 \<rparr>],
      [MongoFindOne ''slo1'' ''team1'', ClickHouseQuery (BurnRateQuery ''slo1'' 100 2592100)])"
proof -
  have t: "toDateTime 100000 = 100" "toDateTime 2592100000 = 2592100"
    by (simp_all add: toDateTime_def)
  have e: "fdiv 99 100 = 4458563631096791 / 4503599627370496"
          "fsub 1 (4458563631096791 / 4503599627370496) = 45035996273705 / 4503599627370496"
          "fdiv 998 1000 = 4494592428115755 / 4503599627370496"
          "fmul (4494592428115755 / 4503599627370496) 100 = 7022800668930867 / 70368744177664"
          "fsub 1 (4494592428115755 / 4503599627370496) = 9007199254741 / 4503599627370496"
          "fdiv (9007199254741 / 4503599627370496) (45035996273705 / 4503599627370496)
             = 3602879701896397 / 18014398509481984"
          "fdiv 4 5 = 3602879701896397 / 4503599627370496"
          "fmul (3602879701896397 / 4503599627370496) 100 = 80"
          "fsub 1 (3602879701896397 / 4503599627370496) = 900719925474099 / 4503599627370496"
          "fdiv (900719925474099 / 4503599627370496) (45035996273705 / 4503599627370496)
             = 2814749767106557 / 140737488355328"
    by (simp_all add: fmul_def fsub_def fdiv_def fl_def expo.simps round_even_def)
  show ?thesis
    by (simp add: getSLOBurnRate_def findOne_def example_slo_fields example_clickhouse_def t
        example_burnRateQuery_past e)
qed

theorem C9_series_budget_placeholder_witness:
  "map_sum id (map point_errorBudgetRemaining)
     (fst (getSLOBurnRate [example_slo\<lparr>targetValue := 99\<rparr>]
             (example_clickhouse example_rows_past) (\<lambda>t. t * 1000)
             ''slo1'' ''team1'' 100000 2592100000))
   = Inr [0, 0]
   \<and> map_sum id (map point_achieved)
     (fst (getSLOBurnRate [example_slo\<lparr>targetValue := 99\<rparr>]
             (example_clickhouse example_rows_past) (\<lambda>t. t * 1000)
             ''slo1'' ''team1'' 100000 2592100000))
   = Inr [7022800668930867 / 70368744177664, 80]"
  using C9_series_budget_placeholder[OF example_getSLOBurnRate]
  by (simp add: example_getSLOBurnRate)

section \<open>The frame of the alert decision\<close>

text \<open>
  C10. \<open>checkSLOBurnAlerts\<close> only decides: it leaves the SLO as it was, in particular
  \<open>lastBurnAlertState\<close>, and sends no webhook. The dispatch is in \<open>sendSLOBurnAlert\<close>,
  which sends exactly one message and does not change the SLO either.
\<close>

theorem C10_check_is_pure:
  "fst (snd (checkSLOBurnAlerts s br ach tgt ebr webhook now)) = s
   \<and> lastBurnAlertState (fst (snd (checkSLOBurnAlerts s br ach tgt ebr webhook now)))
       = lastBurnAlertState s
   \<and> (\<forall>w m. SendWebhook w m \<notin> set (snd (snd (checkSLOBurnAlerts s br ach tgt ebr webhook now))))
   \<and> fst (snd (sendSLOBurnAlert deliver url s br sev w' ach tgt ebr now)) = s
   \<and> (\<exists>m l. snd (snd (sendSLOBurnAlert deliver url s br sev w' ach tgt ebr now))
               = [SendWebhook w' m, l])"
proof -
  have 1: "fst (snd (checkSLOBurnAlerts s br ach tgt ebr webhook now)) = s"
    by (simp add: checkSLOBurnAlerts_def split: option.splits)
  have 2: "\<forall>w m. SendWebhook w m \<notin> set (snd (snd (checkSLOBurnAlerts s br ach tgt ebr webhook now)))"
    by (simp add: checkSLOBurnAlerts_def split: option.splits)
  have 3: "fst (snd (sendSLOBurnAlert deliver url s br sev w' ach tgt ebr now)) = s"
    by (simp add: sendSLOBurnAlert_def Let_def)
  have 4: "\<exists>m l. snd (snd (sendSLOBurnAlert deliver url s br sev w' ach tgt ebr now))
               = [SendWebhook w' m, l]"
    by (simp add: sendSLOBurnAlert_def Let_def)
  from 1 2 3 4 show ?thesis by simp
qed

theorem C10_check_is_pure_witness:
  "checkSLOBurnAlerts (example_alerting_slo None) (Fin 4) 96 99 0 (Some example_webhook) 10000000
     = (\<lparr> shouldAlert = True, severity = Some critical \<rparr>, example_alerting_slo None, [])
   \<and> fst (snd (checkSLOBurnAlerts (example_alerting_slo None) (Fin 4) 96 99 0
                  (Some example_webhook) 10000000)) = example_alerting_slo None"
proof -
  have "checkSLOBurnAlerts (example_alerting_slo None) (Fin 4) 96 99 0 (Some example_webhook)
          10000000
     = (\<lparr> shouldAlert = True, severity = Some critical \<rparr>, example_alerting_slo None, [])"
    by (simp add: checkSLOBurnAlerts_def example_alerting_slo_fields example_thresholds_nonempty
        example_sortedThresholds)
  with C10_check_is_pure[of "example_alerting_slo None" "Fin 4" 96 99 0 "Some example_webhook"
      10000000]
  show ?thesis by simp
qed

end
